theory Spec2Isabelle
  imports Complex_Main "HOL-Library.Multiset"
begin

section \<open>Data model of \<^verbatim>\<open>tally_points_by_shape.py\<close>\<close>

text \<open>
  A \<^verbatim>\<open>Point(x, y)\<close> is a pair of coordinates (longitude, latitude). Every finite
  floating-point coordinate is a rational number, and the containment test below only
  compares coordinates and takes the sign of an orientation determinant, which the
  geometry library evaluates robustly; coordinates are therefore rationals here.

  A \<^verbatim>\<open>Polygon(ring)\<close> is the list of the vertices of its exterior ring, in the order
  given (the script passes \<^verbatim>\<open>coordinates[0]\<close> only, so there are no holes).

  A Python \<^verbatim>\<open>dict\<close> with string keys is an association list in insertion order
  (the order in which Python 3 iterates over it); a dict has pairwise distinct keys.
\<close>

type_synonym point = "rat \<times> rat"
type_synonym polygon = "point list"
type_synonym 'v dict = "(string \<times> 'v) list"

text \<open>\<^verbatim>\<open>d.update({k: v})\<close>: an existing key keeps its position and gets the new value,
  a new key is appended.\<close>

fun dict_update :: "'v dict \<Rightarrow> string \<Rightarrow> 'v \<Rightarrow> 'v dict" where
  "dict_update [] k v = [(k, v)]"
| "dict_update ((k', v') # d) k v =
     (if k' = k then (k, v) # d else (k', v') # dict_update d k v)"

section \<open>The containment predicate \<^verbatim>\<open>pt.within(poly)\<close>\<close>

text \<open>
  \<^verbatim>\<open>tally_points\<close> decides containment with the geometry library's
  \<^verbatim>\<open>Point.within(Polygon)\<close>. By that predicate's definition a geometry is within
  another when it intersects only the \<^emph>\<open>interior\<close> of the other, not its boundary or
  exterior. For a point and a polygon without holes the library locates the point
  against the closed exterior ring: a point on a ring segment is on the boundary;
  otherwise a ray from the point towards \<open>+x\<close> is cast and the point is interior when
  the ray crosses the ring an odd number of times. The definitions below are that
  location procedure in exact arithmetic.

  The module's docstring describes the intended tally: ``A point that is in more than
  one shape (as happens when shapes have a shared boundary or other intersection)
  counts toward the total for each shape that contains it.''
\<close>

text \<open>Twice the signed area of the triangle \<open>a b p\<close>: positive when \<open>p\<close> is to the left
  of the directed line from \<open>a\<close> to \<open>b\<close>.\<close>

definition orientation :: "point \<Rightarrow> point \<Rightarrow> point \<Rightarrow> rat" where
  "orientation a b p =
     (fst b - fst a) * (snd p - snd a) - (snd b - snd a) * (fst p - fst a)"

definition on_segment :: "point \<Rightarrow> point \<times> point \<Rightarrow> bool" where
  "on_segment p e =
     (orientation (fst e) (snd e) p = 0
      \<and> min (fst (fst e)) (fst (snd e)) \<le> fst p \<and> fst p \<le> max (fst (fst e)) (fst (snd e))
      \<and> min (snd (fst e)) (snd (snd e)) \<le> snd p \<and> snd p \<le> max (snd (fst e)) (snd (snd e)))"

text \<open>The ray from \<open>p\<close> towards \<open>+x\<close> crosses the segment: the segment straddles the
  ray's line (half-open, so that a vertex on the line is counted once) and \<open>p\<close> is
  strictly to its left.\<close>

definition ray_crosses :: "point \<Rightarrow> point \<times> point \<Rightarrow> bool" where
  "ray_crosses p e =
     (if snd (fst e) \<le> snd p \<and> snd p < snd (snd e) then 0 < orientation (fst e) (snd e) p
      else if snd (snd e) \<le> snd p \<and> snd p < snd (fst e) then orientation (fst e) (snd e) p < 0
      else False)"

text \<open>The segments of the ring; the last vertex is joined back to the first. For a
  ring that is given closed (its last vertex repeats the first) the joining segment is
  a single point, which lies on the ring already and is crossed by no ray.\<close>

definition ring_segments :: "polygon \<Rightarrow> (point \<times> point) list" where
  "ring_segments poly = zip poly (rotate1 poly)"

definition on_boundary :: "point \<Rightarrow> polygon \<Rightarrow> bool" where
  "on_boundary p poly = list_ex (on_segment p) (ring_segments poly)"

definition crossings :: "point \<Rightarrow> polygon \<Rightarrow> nat" where
  "crossings p poly = length (filter (ray_crosses p) (ring_segments poly))"

definition within_polygon :: "point \<Rightarrow> polygon \<Rightarrow> bool" where
  "within_polygon pt poly = (if on_boundary pt poly then False else odd (crossings pt poly))"

section \<open>The tally engine \<^verbatim>\<open>tally_points\<close>\<close>

text \<open>The inner loop \<^verbatim>\<open>for pt in points: if pt.within(poly): count += 1\<close>,
  with the running \<^verbatim>\<open>count\<close> as the accumulator \<open>cnt\<close>.\<close>

fun count_points :: "polygon \<Rightarrow> point list \<Rightarrow> int \<Rightarrow> int" where
  "count_points poly [] cnt = cnt"
| "count_points poly (pt # points) cnt =
     count_points poly points (if within_polygon pt poly then cnt + 1 else cnt)"

text \<open>The outer loop \<^verbatim>\<open>for name, poly in polygons.items()\<close>, with the result dict
  \<^verbatim>\<open>d\<close> as accumulator.\<close>

fun tally_loop :: "polygon dict \<Rightarrow> point list \<Rightarrow> int dict \<Rightarrow> int dict" where
  "tally_loop [] points d = d"
| "tally_loop ((name, poly) # polygons) points d =
     tally_loop polygons points (dict_update d name (count_points poly points 0))"

definition tally_points :: "polygon dict \<Rightarrow> point list \<Rightarrow> int dict" where
  "tally_points polygons points = tally_loop polygons points []"

text \<open>The entry that the outer loop records for one entry of \<^verbatim>\<open>polygons\<close>.\<close>

definition tally_entry :: "point list \<Rightarrow> string \<times> polygon \<Rightarrow> string \<times> int" where
  "tally_entry points entry = (fst entry, count_points (snd entry) points 0)"

section \<open>Acquisition, output and \<^verbatim>\<open>main\<close>\<close>

text \<open>Everything the script writes goes to standard output: \<^verbatim>\<open>print(s)\<close> writes
  \<open>s\<close> and a newline.\<close>

definition print_line :: "string \<Rightarrow> string" where
  "print_line s = s @ [CHR 0x0A]"

text \<open>The result of a \<^verbatim>\<open>try\<close> body: it raised, or it ran to its end with a value.\<close>

datatype 'a outcome = Raised | Returned 'a

text \<open>
  \<^verbatim>\<open>get_shapes\<close>: the argument is the outcome of the \<^verbatim>\<open>try\<close> body (opening the
  file, \<^verbatim>\<open>json.load\<close>, building the dict of polygons). The result is the returned
  pair \<^verbatim>\<open>(polygons, flag)\<close> together with what was printed.
\<close>

definition get_shapes :: "polygon dict outcome \<Rightarrow> (polygon dict \<times> int) \<times> string" where
  "get_shapes loaded =
     (case loaded of
        Returned polygons \<Rightarrow> ((polygons, 1), [])
      | Raised \<Rightarrow> (([], - 1), print_line ''I/O error: no shape data acquired.''))"

text \<open>
  \<^verbatim>\<open>get_points\<close>. Standard input is a terminal (\<^verbatim>\<open>os.isatty(0)\<close>), or a stream on
  which \<^verbatim>\<open>pd.read_csv\<close> raises or returns a data frame, given by its columns. A cell
  is a number or text; \<^verbatim>\<open>Point(i, j)\<close> raises on text. The variable \<^verbatim>\<open>points\<close>
  starts as the integer \<open>-1\<close> and is a list only once the comprehension has finished,
  so the first component of the result is dynamically typed.
\<close>

datatype cell = Num rat | Text string

type_synonym dataframe = "cell list list"

datatype stdin = Tty | Piped "dataframe outcome"

datatype points_val = PInt int | PList "point list"

fun Point :: "cell \<Rightarrow> cell \<Rightarrow> point outcome" where
  "Point (Num x) (Num y) = Returned (x, y)"
| "Point i j = Raised"

text \<open>The comprehension \<^verbatim>\<open>[Point(i, j) for (i, j) in ...]\<close>.\<close>

fun make_points :: "(cell \<times> cell) list \<Rightarrow> point list outcome" where
  "make_points [] = Returned []"
| "make_points ((i, j) # rest) =
     (case Point i j of
        Raised \<Rightarrow> Raised
      | Returned pt \<Rightarrow>
          (case make_points rest of
             Raised \<Rightarrow> Raised
           | Returned pts \<Rightarrow> Returned (pt # pts)))"

text \<open>The \<^verbatim>\<open>try\<close> body of \<^verbatim>\<open>get_points\<close>: \<^verbatim>\<open>df.columns = ['lat', 'lon']\<close> raises
  unless the frame has exactly two columns; the points are built from
  \<^verbatim>\<open>zip(df['lon'], df['lat'])\<close>.\<close>

definition read_points :: "dataframe outcome \<Rightarrow> point list outcome" where
  "read_points r =
     (case r of
        Raised \<Rightarrow> Raised
      | Returned df \<Rightarrow>
          (case df of
             [lat, lon] \<Rightarrow> make_points (zip lon lat)
           | _ \<Rightarrow> Raised))"

definition get_points :: "stdin \<Rightarrow> (points_val \<times> int) \<times> string" where
  "get_points inp =
     (case inp of
        Tty \<Rightarrow> ((PInt (- 1), - 1), print_line ''I/O error: no input file name provided.'')
      | Piped r \<Rightarrow>
          (case read_points r of
             Returned points \<Rightarrow> ((PList points, 1), [])
           | Raised \<Rightarrow> ((PInt (- 1), - 1), print_line ''I/O error: no point data acquired.'')))"

text \<open>\<^verbatim>\<open>str(count)\<close> of a Python integer.\<close>

function str_nat :: "nat \<Rightarrow> string" where
  "str_nat n =
     (if n < 10 then [''0123456789'' ! n]
      else str_nat (n div 10) @ [''0123456789'' ! (n mod 10)])"
  by pat_completeness auto
termination
  by (relation "measure id") auto

declare str_nat.simps [simp del]

definition str_int :: "int \<Rightarrow> string" where
  "str_int i = (if i < 0 then CHR ''-'' # str_nat (nat (- i)) else str_nat (nat i))"

text \<open>
  \<^verbatim>\<open>csv.writer(sys.stdout, delimiter='\t', lineterminator='\t')\<close> with the default
  minimal quoting: a field is quoted when it contains the delimiter, a character of the
  line terminator (both the tab here) or the quote character, and quote characters
  inside it are doubled (the characters that force quoting are those of the CPython 3
  releases of the script's time). \<^verbatim>\<open>writerow((key, count))\<close> writes the two fields,
  a tab between them and the line terminator, again a tab, after them.
\<close>

definition tab :: char where
  "tab = CHR 0x09"

definition quotechar :: char where
  "quotechar = CHR 0x22"

definition csv_special :: "char \<Rightarrow> bool" where
  "csv_special c = (c = tab \<or> c = quotechar)"

definition csv_field :: "string \<Rightarrow> string" where
  "csv_field s =
     (if list_ex csv_special s
      then [quotechar] @ concat (map (\<lambda>c. if c = quotechar then [c, c] else [c]) s) @ [quotechar]
      else s)"

definition writerow :: "string \<Rightarrow> int \<Rightarrow> string" where
  "writerow key cnt = csv_field key @ [tab] @ str_int cnt @ [tab]"

datatype error = TypeError | KeyError

text \<open>The loop \<^verbatim>\<open>for key in tally.keys(): tsv_writer.writerow((key, tally[key]))\<close>:
  what it writes, and the error that stopped it, if any.\<close>

fun write_rows :: "int dict \<Rightarrow> string list \<Rightarrow> string \<times> error option" where
  "write_rows tally [] = ([], None)"
| "write_rows tally (key # keys) =
     (case map_of tally key of
        None \<Rightarrow> ([], Some KeyError)
      | Some cnt \<Rightarrow>
          (case write_rows tally keys of
             (out, e) \<Rightarrow> (writerow key cnt @ out, e)))"

text \<open>The call \<^verbatim>\<open>tally_points(polys, points)\<close> on the dynamically typed
  \<^verbatim>\<open>points\<close>: iterating over an integer raises, which happens for the first polygon.\<close>

definition call_tally_points :: "polygon dict \<Rightarrow> points_val \<Rightarrow> error + int dict" where
  "call_tally_points polygons points =
     (case points of
        PList pts \<Rightarrow> Inr (tally_points polygons pts)
      | PInt i \<Rightarrow> (if polygons = [] then Inr [] else Inl TypeError))"

text \<open>
  A run of \<^verbatim>\<open>main\<close>: the text on standard output, the outcome of the call of the
  tally engine (\<open>None\<close> when \<^verbatim>\<open>main\<close> never called it), and the error that ended the
  run, if any.
\<close>

record run =
  stdout :: string
  engine :: "(error + int dict) option"
  uncaught :: "error option"

definition main :: "polygon dict outcome \<Rightarrow> stdin \<Rightarrow> run" where
  "main shape_file inp =
     (case get_shapes shape_file of
        ((polys, polys_flag), out1) \<Rightarrow>
     (case get_points inp of
        ((points, points_flag), out2) \<Rightarrow>
       if points_flag = 1 \<and> polys_flag = 1 then
         (case call_tally_points polys points of
            Inl e \<Rightarrow> \<lparr>stdout = out1 @ out2, engine = Some (Inl e), uncaught = Some e\<rparr>
          | Inr tally \<Rightarrow>
              (case write_rows tally (map fst tally) of
                 (rows, e) \<Rightarrow>
                   \<lparr>stdout = out1 @ out2 @ rows, engine = Some (Inr tally), uncaught = e\<rparr>))
       else
         \<lparr>stdout = out1 @ out2 @ print_line ''Aborting.'', engine = None, uncaught = None\<rparr>))"

section \<open>Auxiliary facts\<close>

lemmas geometry_defs =
  within_polygon_def on_boundary_def crossings_def ring_segments_def
  on_segment_def ray_crosses_def orientation_def

lemma within_polygon_excludes_boundary:
  "on_boundary pt poly \<Longrightarrow> \<not> within_polygon pt poly"
  by (simp add: within_polygon_def)

text \<open>Polygons whose interiors overlap do share points: a point in the overlap is
  counted once for each, and the counts add up to more than the number of points.\<close>

lemma tally_points_overlap:
  "tally_points
     [(''A'', [(0,0),(0,2),(2,2),(2,0)]), (''B'', [(1,0),(1,2),(3,2),(3,0)])] [(3/2, 1)]
   = [(''A'', 1), (''B'', 1)]"
  by (simp add: tally_points_def geometry_defs)

lemma count_points_filter:
  "count_points poly points cnt =
     cnt + int (length (filter (\<lambda>pt. within_polygon pt poly) points))"
  by (induction points arbitrary: cnt) simp_all

lemma count_points_bounds:
  "0 \<le> count_points poly points 0 \<and> count_points poly points 0 \<le> int (length points)"
  by (simp add: count_points_filter)

lemma count_points_perm:
  assumes "mset points = mset points'"
  shows "count_points poly points cnt = count_points poly points' cnt"
proof -
  have "mset (filter (\<lambda>pt. within_polygon pt poly) points)
      = mset (filter (\<lambda>pt. within_polygon pt poly) points')"
    using assms by simp
  then have "length (filter (\<lambda>pt. within_polygon pt poly) points)
      = length (filter (\<lambda>pt. within_polygon pt poly) points')"
    by (rule mset_eq_length)
  then show ?thesis
    by (simp add: count_points_filter)
qed

lemma dict_update_fresh:
  "k \<notin> fst ` set d \<Longrightarrow> dict_update d k v = d @ [(k, v)]"
  by (induction d) auto

lemma dict_update_subset:
  "set (dict_update d k v) \<subseteq> insert (k, v) (set d)"
  by (induction d) (auto split: if_splits)

lemma tally_loop_distinct:
  "distinct (map fst polygons) \<Longrightarrow> fst ` set polygons \<inter> fst ` set d = {} \<Longrightarrow>
     tally_loop polygons points d = d @ map (tally_entry points) polygons"
proof (induction polygons arbitrary: d)
  case Nil
  then show ?case by simp
next
  case (Cons entry polygons)
  obtain name poly where entry: "entry = (name, poly)"
    by (cases entry)
  let ?d = "d @ [(name, count_points poly points 0)]"
  from Cons.prems entry have fresh: "name \<notin> fst ` set d"
    by auto
  from Cons.prems entry have "distinct (map fst polygons)"
    and "fst ` set polygons \<inter> fst ` set ?d = {}"
    by auto
  then have "tally_loop polygons points ?d = ?d @ map (tally_entry points) polygons"
    by (rule Cons.IH)
  with fresh entry show ?case
    by (simp add: dict_update_fresh tally_entry_def)
qed

lemma tally_points_distinct:
  "distinct (map fst polygons) \<Longrightarrow>
     tally_points polygons points = map (tally_entry points) polygons"
  by (simp add: tally_points_def tally_loop_distinct)

lemma tally_loop_entries:
  "(name, c) \<in> set (tally_loop polygons points d) \<Longrightarrow>
     (name, c) \<in> set d \<or> (\<exists>poly. (name, poly) \<in> set polygons \<and> c = count_points poly points 0)"
proof (induction polygons arbitrary: d)
  case Nil
  then show ?case by simp
next
  case (Cons entry polygons)
  obtain k poly where entry: "entry = (k, poly)"
    by (cases entry)
  from Cons.prems entry
  have "(name, c) \<in> set (tally_loop polygons points (dict_update d k (count_points poly points 0)))"
    by simp
  then have "(name, c) \<in> set (dict_update d k (count_points poly points 0))
      \<or> (\<exists>poly. (name, poly) \<in> set polygons \<and> c = count_points poly points 0)"
    by (rule Cons.IH)
  moreover have "set (dict_update d k (count_points poly points 0))
      \<subseteq> insert (k, count_points poly points 0) (set d)"
    by (rule dict_update_subset)
  ultimately show ?case
    using entry by auto
qed

lemma tally_points_entries:
  "(name, c) \<in> set (tally_points polygons points) \<Longrightarrow>
     \<exists>poly. (name, poly) \<in> set polygons \<and> c = count_points poly points 0"
  using tally_loop_entries [of name c polygons points "[]"]
  by (simp add: tally_points_def)

lemma tally_loop_perm:
  "mset points = mset points' \<Longrightarrow> tally_loop polygons points d = tally_loop polygons points' d"
proof (induction polygons arbitrary: d)
  case Nil
  then show ?case by simp
next
  case (Cons entry polygons)
  obtain name poly where entry: "entry = (name, poly)"
    by (cases entry)
  from Cons.prems have "count_points poly points 0 = count_points poly points' 0"
    by (rule count_points_perm)
  with Cons entry show ?case
    by simp
qed

lemma get_shapes_cases:
  "get_shapes loaded = ((polys, flag), out) \<Longrightarrow>
     (flag = 1 \<and> out = []) \<or>
     (flag = - 1 \<and> polys = [] \<and> out = print_line ''I/O error: no shape data acquired.'')"
  by (auto simp: get_shapes_def split: outcome.splits)

lemma get_points_cases:
  "get_points inp = ((points, flag), out) \<Longrightarrow>
     (flag = 1 \<and> out = [] \<and> (\<exists>pts. points = PList pts)) \<or>
     (flag = - 1 \<and> points = PInt (- 1) \<and>
        (out = print_line ''I/O error: no input file name provided.''
         \<or> out = print_line ''I/O error: no point data acquired.''))"
  by (auto simp: get_points_def split: stdin.splits outcome.splits)

lemma write_rows_keys:
  "set keys \<subseteq> fst ` set tally \<Longrightarrow>
     write_rows tally keys =
       (concat (map (\<lambda>key. writerow key (the (map_of tally key))) keys), None)"
proof (induction keys)
  case Nil
  then show ?case by simp
next
  case (Cons key keys)
  then have "key \<in> fst ` set tally"
    by simp
  then obtain cnt where "map_of tally key = Some cnt"
    by (metis domIff dom_map_of_conv_image_fst not_Some_eq)
  with Cons show ?case
    by simp
qed

lemma write_rows_dict:
  assumes "distinct (map fst tally)"
  shows "write_rows tally (map fst tally) =
     (concat (map (\<lambda>(name, cnt). csv_field name @ [tab] @ str_int cnt @ [tab]) tally), None)"
proof -
  have rows: "map (\<lambda>key. writerow key (the (map_of tally key))) (map fst tally)
      = map (\<lambda>(name, cnt). csv_field name @ [tab] @ str_int cnt @ [tab]) tally"
    using assms by (auto simp: writerow_def)
  have "write_rows tally (map fst tally) =
       (concat (map (\<lambda>key. writerow key (the (map_of tally key))) (map fst tally)), None)"
    by (rule write_rows_keys) simp
  then show ?thesis
    unfolding rows .
qed

section \<open>The containment predicate on the boundary\<close>

text \<open>
  Claim C1: the containment predicate used by \<^verbatim>\<open>tally_points\<close> holds exactly for the
  points strictly inside the polygon and the points on its boundary, so that a point
  on an edge increments the polygon's count.

  The script tests \<^verbatim>\<open>pt.within(poly)\<close>, which excludes the boundary. For the square
  with corners \<open>(0,0)\<close> and \<open>(2,2)\<close> the centre \<open>(1,1)\<close> is within it, but the point
  \<open>(0,1)\<close> on its left edge and the corner \<open>(0,0)\<close> are not, and tallying the point
  \<open>(0,1)\<close> leaves the count at \<open>0\<close>.
\<close>

theorem within_polygon_edge_point_not_counted:
  "within_polygon (1, 1) [(0,0),(0,2),(2,2),(2,0)]
   \<and> on_segment (0, 1) ((0,0),(0,2))
   \<and> on_boundary (0, 1) [(0,0),(0,2),(2,2),(2,0)]
   \<and> \<not> within_polygon (0, 1) [(0,0),(0,2),(2,2),(2,0)]
   \<and> on_boundary (0, 0) [(0,0),(0,2),(2,2),(2,0)]
   \<and> \<not> within_polygon (0, 0) [(0,0),(0,2),(2,2),(2,0)]
   \<and> tally_points [(''square'', [(0,0),(0,2),(2,2),(2,0)])] [(0, 1)] = [(''square'', 0)]"
  by (simp add: tally_points_def geometry_defs)

text \<open>
  Claim C2: for the Shape Set \<open>{"square": [(0,0),(0,2),(2,2),(2,0)]}\<close> and the Point Set
  \<open>[(1,1), (3,3), (0,1), (0,0)]\<close> the tally is \<open>{"square": 3}\<close>.

  \<^verbatim>\<open>tally_points\<close> returns \<open>{"square": 1}\<close> on this input: only the interior point
  \<open>(1,1)\<close> is counted, the point on the edge and the point on the vertex are not.
\<close>

theorem tally_points_square_scenario:
  "tally_points [(''square'', [(0,0),(0,2),(2,2),(2,0)])] [(1,1),(3,3),(0,1),(0,0)]
     = [(''square'', 1)]"
  by (simp add: tally_points_def geometry_defs)

text \<open>
  Claim C3: a point on the edge shared by two adjacent polygons is counted in the
  tallies of both, so that the counts can add up to more than the number of points.

  For the unit squares \<open>A\<close> and \<open>B\<close> that share the edge from \<open>(1,0)\<close> to \<open>(1,1)\<close>,
  \<^verbatim>\<open>tally_points\<close> counts the point \<open>(1, 1/2)\<close> on that edge in neither.
\<close>

theorem tally_points_shared_edge_point:
  "on_segment (1, 1/2) ((1,1),(1,0))
   \<and> on_segment (1, 1/2) ((1,0),(1,1))
   \<and> tally_points
        [(''A'', [(0,0),(0,1),(1,1),(1,0)]), (''B'', [(1,0),(1,1),(2,1),(2,0)])] [(1, 1/2)]
     = [(''A'', 0), (''B'', 0)]"
  by (simp add: tally_points_def geometry_defs)

section \<open>Properties of the tally engine\<close>

text \<open>
  Claim C4: the Tally Result has exactly one entry per entry of the Shape Set, also
  for a count of zero, and its order is the key order of the Shape Set. (The Shape Set
  is a dict, so its keys are distinct.)
\<close>

theorem tally_points_one_entry_per_shape:
  assumes "distinct (map fst polygons)"
  shows "map fst (tally_points polygons points) = map fst polygons
       \<and> length (tally_points polygons points) = length polygons
       \<and> distinct (map fst (tally_points polygons points))
       \<and> tally_points polygons points =
           map (\<lambda>entry. (fst entry, count_points (snd entry) points 0)) polygons"
proof -
  have entries: "tally_points polygons points =
      map (\<lambda>entry. (fst entry, count_points (snd entry) points 0)) polygons"
    using assms by (simp add: tally_points_distinct tally_entry_def)
  have keys: "map fst (tally_points polygons points) = map fst polygons"
    unfolding entries by (simp add: comp_def)
  have len: "length (tally_points polygons points) = length polygons"
    unfolding entries by simp
  have dist: "distinct (map fst (tally_points polygons points))"
    using assms by (simp only: keys)
  from keys len dist entries show ?thesis
    by (intro conjI)
qed

theorem tally_points_one_entry_per_shape_witness:
  "distinct (map fst [(''A'', [(0,0),(0,1),(1,1),(1,0)]), (''B'', [(10,10),(10,11),(11,11),(11,10)])])
   \<and> tally_points [(''A'', [(0,0),(0,1),(1,1),(1,0)]), (''B'', [(10,10),(10,11),(11,11),(11,10)])] [(1/2,1/2)]
      = [(''A'', 1), (''B'', 0)]
   \<and> map fst (tally_points [(''A'', [(0,0),(0,1),(1,1),(1,0)]), (''B'', [(10,10),(10,11),(11,11),(11,10)])] [(1/2,1/2)])
      = [''A'', ''B'']"
  using tally_points_one_entry_per_shape [of "[(''A'', [(0,0),(0,1),(1,1),(1,0)]), (''B'', [(10,10),(10,11),(11,11),(11,10)])]" "[(1/2,1/2)]"]
  by (simp add: tally_points_def geometry_defs)

text \<open>
  Claim C5: every count in the Tally Result is an integer between \<open>0\<close> and the number
  of points in the Point Set, inclusive.
\<close>

theorem tally_points_count_bounds:
  assumes "(name, c) \<in> set (tally_points polygons points)"
  shows "0 \<le> c \<and> c \<le> int (length points)"
proof -
  from assms obtain poly where "c = count_points poly points 0"
    using tally_points_entries by blast
  then show ?thesis
    using count_points_bounds [of poly points] by simp
qed

theorem tally_points_count_bounds_witness:
  "(''square'', 1) \<in> set (tally_points [(''square'', [(0,0),(0,2),(2,2),(2,0)])] [(1,1),(3,3),(0,1),(0,0)])
   \<and> (0::int) \<le> 1 \<and> (1::int) \<le> int (length [(1,1),(3,3),(0,1),(0::rat,0::rat)])"
  using tally_points_count_bounds [of "''square''" 1 "[(''square'', [(0,0),(0,2),(2,2),(2,0)])]" "[(1,1),(3,3),(0,1),(0,0)]"]
  by (simp add: tally_points_def geometry_defs)

text \<open>
  Claim C6: the tally engine has no error conditions: called with a dict of polygons
  and a list of points it returns a result; an empty Shape Set gives an empty Tally
  Result, and an empty Point Set gives a Tally Result in which every count is \<open>0\<close>.
\<close>

theorem tally_points_empty_inputs:
  "tally_points [] points = []
   \<and> call_tally_points polygons (PList points) = Inr (tally_points polygons points)
   \<and> snd ` set (tally_points polygons []) \<subseteq> {0}
   \<and> (distinct (map fst polygons) \<longrightarrow>
        tally_points polygons [] = map (\<lambda>entry. (fst entry, 0)) polygons)"
proof -
  have "tally_points [] points = []"
    by (simp add: tally_points_def)
  moreover have "call_tally_points polygons (PList points) = Inr (tally_points polygons points)"
    by (simp add: call_tally_points_def)
  moreover have "snd ` set (tally_points polygons []) \<subseteq> {0}"
  proof
    fix c assume "c \<in> snd ` set (tally_points polygons [])"
    then obtain name where "(name, c) \<in> set (tally_points polygons [])"
      by auto
    then have "\<exists>poly. (name, poly) \<in> set polygons \<and> c = count_points poly [] 0"
      by (rule tally_points_entries)
    then show "c \<in> {0}"
      by auto
  qed
  moreover have "distinct (map fst polygons) \<longrightarrow>
        tally_points polygons [] = map (\<lambda>entry. (fst entry, 0)) polygons"
    by (simp add: tally_points_distinct tally_entry_def)
  ultimately show ?thesis
    by simp
qed

theorem tally_points_empty_inputs_witness:
  "distinct (map fst [(''A'', [(0,0),(0,1),(1,1),(1,0)]), (''B'', [(1,0),(1,1),(2,1),(2,0)])])
   \<and> tally_points [(''A'', [(0,0),(0,1),(1,1),(1,0)]), (''B'', [(1,0),(1,1),(2,1),(2,0)])] []
       = [(''A'', 0), (''B'', 0)]
   \<and> tally_points [] [(1/2, 1/2)] = []"
  using tally_points_empty_inputs [of "[(1/2, 1/2)]" "[(''A'', [(0,0),(0,1),(1,1),(1,0)]), (''B'', [(1,0),(1,1),(2,1),(2,0)])]"]
  by simp

text \<open>
  Claim C7: permuting the Point Set changes no count; two Shape Sets with the same
  entries in a different key order give the same set of (name, count) pairs.
\<close>

theorem tally_points_order_independent:
  "(mset points = mset points' \<longrightarrow>
      tally_points polygons points = tally_points polygons points')
   \<and> (distinct (map fst polygons) \<and> distinct (map fst polygons') \<and> set polygons = set polygons' \<longrightarrow>
      set (tally_points polygons points) = set (tally_points polygons' points))"
proof (rule conjI)
  show "mset points = mset points' \<longrightarrow>
      tally_points polygons points = tally_points polygons points'"
    unfolding tally_points_def by (intro impI) (rule tally_loop_perm)
  show "distinct (map fst polygons) \<and> distinct (map fst polygons') \<and> set polygons = set polygons' \<longrightarrow>
      set (tally_points polygons points) = set (tally_points polygons' points)"
  proof (intro impI, elim conjE)
    assume d: "distinct (map fst polygons)" and d': "distinct (map fst polygons')"
      and eq: "set polygons = set polygons'"
    have "set (tally_points polygons points) = tally_entry points ` set polygons"
      using d by (simp add: tally_points_distinct)
    also have "\<dots> = tally_entry points ` set polygons'"
      by (simp only: eq)
    also have "\<dots> = set (tally_points polygons' points)"
      using d' by (simp add: tally_points_distinct)
    finally show "set (tally_points polygons points) = set (tally_points polygons' points)" .
  qed
qed

theorem tally_points_order_independent_witness:
  "mset [(1/2, 1/2), (5, 5)] = mset [(5, 5), (1/2 :: rat, 1/2 :: rat)]
   \<and> tally_points [(''A'', [(0,0),(0,1),(1,1),(1,0)]), (''B'', [(10,10),(10,11),(11,11),(11,10)])]
        [(1/2, 1/2), (5, 5)]
     = tally_points [(''A'', [(0,0),(0,1),(1,1),(1,0)]), (''B'', [(10,10),(10,11),(11,11),(11,10)])]
        [(5, 5), (1/2, 1/2)]
   \<and> distinct (map fst [(''A'', [(0,0),(0,1),(1,1),(1,0)]), (''B'', [(10,10),(10,11),(11,11),(11::rat,10::rat)])])
   \<and> distinct (map fst [(''B'', [(10,10),(10,11),(11,11),(11,10)]), (''A'', [(0,0),(0,1),(1,1),(1::rat,0::rat)])])
   \<and> set [(''A'', [(0,0),(0,1),(1,1),(1,0)]), (''B'', [(10,10),(10,11),(11,11),(11,10)])]
     = set [(''B'', [(10,10),(10,11),(11,11),(11,10)]), (''A'', [(0,0),(0,1),(1,1),(1::rat,0::rat)])]
   \<and> set (tally_points [(''A'', [(0,0),(0,1),(1,1),(1,0)]), (''B'', [(10,10),(10,11),(11,11),(11,10)])]
        [(1/2, 1/2), (5, 5)])
     = set (tally_points [(''B'', [(10,10),(10,11),(11,11),(11,10)]), (''A'', [(0,0),(0,1),(1,1),(1,0)])]
        [(1/2, 1/2), (5, 5)])"
proof -
  have m: "mset [(1/2, 1/2), (5, 5)] = mset [(5, 5), (1/2 :: rat, 1/2 :: rat)]"
    by (simp add: add_mset_commute)
  have e: "set [(''A'', [(0,0),(0,1),(1,1),(1,0)]), (''B'', [(10,10),(10,11),(11,11),(11,10)])]
     = set [(''B'', [(10,10),(10,11),(11,11),(11,10)]), (''A'', [(0,0),(0,1),(1,1),(1::rat,0::rat)])]"
    by (simp add: insert_commute)
  have d: "distinct (map fst [(''A'', [(0,0),(0,1),(1,1),(1,0)]), (''B'', [(10,10),(10,11),(11,11),(11::rat,10::rat)])])"
    "distinct (map fst [(''B'', [(10,10),(10,11),(11,11),(11,10)]), (''A'', [(0,0),(0,1),(1,1),(1::rat,0::rat)])])"
    by simp_all
  from tally_points_order_independent [of "[(1/2, 1/2), (5, 5)]" "[(5, 5), (1/2, 1/2)]"
      "[(''A'', [(0,0),(0,1),(1,1),(1,0)]), (''B'', [(10,10),(10,11),(11,11),(11,10)])]"
      "[(''B'', [(10,10),(10,11),(11,11),(11,10)]), (''A'', [(0,0),(0,1),(1,1),(1,0)])]"]
    m e d
  show ?thesis
    by blast
qed

section \<open>Properties of \<^verbatim>\<open>main\<close>, \<^verbatim>\<open>get_points\<close> and the output\<close>

text \<open>
  Claim C8: when the shape acquisition or the point acquisition reports failure (a
  flag other than \<open>1\<close>), \<^verbatim>\<open>main\<close> never calls the tally engine, prints a diagnostic
  and writes no count row: standard output holds the diagnostics of the acquisition
  steps followed by the line \<open>Aborting.\<close>, and nothing else.
\<close>

theorem main_aborts_on_acquisition_failure:
  assumes "snd (fst (get_shapes shape_file)) \<noteq> 1 \<or> snd (fst (get_points inp)) \<noteq> 1"
  shows "engine (main shape_file inp) = None
       \<and> uncaught (main shape_file inp) = None
       \<and> stdout (main shape_file inp) =
           snd (get_shapes shape_file) @ snd (get_points inp) @ print_line ''Aborting.''
       \<and> snd (get_shapes shape_file) @ snd (get_points inp) \<in>
           {print_line ''I/O error: no shape data acquired.'',
            print_line ''I/O error: no input file name provided.'',
            print_line ''I/O error: no point data acquired.'',
            print_line ''I/O error: no shape data acquired.''
              @ print_line ''I/O error: no input file name provided.'',
            print_line ''I/O error: no shape data acquired.''
              @ print_line ''I/O error: no point data acquired.''}"
proof -
  obtain polys polys_flag out1 where s: "get_shapes shape_file = ((polys, polys_flag), out1)"
    by (metis surj_pair)
  obtain points points_flag out2 where p: "get_points inp = ((points, points_flag), out2)"
    by (metis surj_pair)
  from assms s p have fail: "polys_flag \<noteq> 1 \<or> points_flag \<noteq> 1"
    by simp
  then have m: "main shape_file inp =
      \<lparr>stdout = out1 @ out2 @ print_line ''Aborting.'', engine = None, uncaught = None\<rparr>"
    using s p by (auto simp: main_def)
  have "out1 @ out2 \<in>
           {print_line ''I/O error: no shape data acquired.'',
            print_line ''I/O error: no input file name provided.'',
            print_line ''I/O error: no point data acquired.'',
            print_line ''I/O error: no shape data acquired.''
              @ print_line ''I/O error: no input file name provided.'',
            print_line ''I/O error: no shape data acquired.''
              @ print_line ''I/O error: no point data acquired.''}"
    using get_shapes_cases [OF s] get_points_cases [OF p] fail by auto
  with m s p show ?thesis
    by simp
qed

theorem main_aborts_on_acquisition_failure_witness:
  "snd (fst (get_shapes Raised)) \<noteq> 1
   \<and> engine (main Raised (Piped (Returned [[Num 34], [Num (- 118)]]))) = None
   \<and> stdout (main Raised (Piped (Returned [[Num 34], [Num (- 118)]]))) =
       print_line ''I/O error: no shape data acquired.'' @ print_line ''Aborting.''"
  using main_aborts_on_acquisition_failure [of Raised "Piped (Returned [[Num 34], [Num (- 118)]])"]
  by (simp add: get_shapes_def get_points_def read_points_def)

text \<open>
  Claim C9: the output step writes the Tally Result as tab-separated rows of name and
  count, one row per entry, in the iteration order of the Tally Result; for the result
  of the tally engine that is one row per entry of the Shape Set, in its order. (The
  writer's line terminator is a tab as well, so a row ends with a tab.)
\<close>

theorem write_rows_serializes_tally:
  "(distinct (map fst tally) \<longrightarrow>
      write_rows tally (map fst tally) =
        (concat (map (\<lambda>(name, cnt). csv_field name @ [tab] @ str_int cnt @ [tab]) tally), None))
   \<and> (distinct (map fst polygons) \<longrightarrow>
      write_rows (tally_points polygons points) (map fst (tally_points polygons points)) =
        (concat (map (\<lambda>(name, poly).
           csv_field name @ [tab] @ str_int (count_points poly points 0) @ [tab]) polygons), None))"
proof (intro conjI impI)
  assume "distinct (map fst tally)"
  then show "write_rows tally (map fst tally) =
        (concat (map (\<lambda>(name, cnt). csv_field name @ [tab] @ str_int cnt @ [tab]) tally), None)"
    by (rule write_rows_dict)
next
  assume d: "distinct (map fst polygons)"
  then have t: "tally_points polygons points = map (tally_entry points) polygons"
    by (rule tally_points_distinct)
  have "map fst (map (tally_entry points) polygons) = map fst polygons"
    by (induction polygons) (simp_all add: tally_entry_def)
  with d have "distinct (map fst (map (tally_entry points) polygons))"
    by (simp only:)
  then have "write_rows (map (tally_entry points) polygons) (map fst (map (tally_entry points) polygons)) =
      (concat (map (\<lambda>(name, cnt). csv_field name @ [tab] @ str_int cnt @ [tab])
         (map (tally_entry points) polygons)), None)"
    by (rule write_rows_dict)
  moreover have "map (\<lambda>(name, cnt). csv_field name @ [tab] @ str_int cnt @ [tab])
         (map (tally_entry points) polygons)
      = map (\<lambda>(name, poly).
           csv_field name @ [tab] @ str_int (count_points poly points 0) @ [tab]) polygons"
    by (simp add: tally_entry_def comp_def case_prod_unfold)
  ultimately show "write_rows (tally_points polygons points) (map fst (tally_points polygons points)) =
        (concat (map (\<lambda>(name, poly).
           csv_field name @ [tab] @ str_int (count_points poly points 0) @ [tab]) polygons), None)"
    unfolding t by (simp only:)
qed

theorem write_rows_serializes_tally_witness:
  "distinct (map fst [(''A'', 1::int), (''B'', 12)])
   \<and> write_rows [(''A'', 1), (''B'', 12)] (map fst [(''A'', 1::int), (''B'', 12)]) =
      (''A'' @ [tab] @ ''1'' @ [tab] @ ''B'' @ [tab] @ ''12'' @ [tab], None)
   \<and> distinct (map fst [(''square'', [(0,0),(0,2),(2,2),(2::rat,0::rat)])])
   \<and> write_rows (tally_points [(''square'', [(0,0),(0,2),(2,2),(2,0)])] [(1,1),(3,3)])
         (map fst (tally_points [(''square'', [(0,0),(0,2),(2,2),(2,0)])] [(1,1),(3,3)])) =
      (''square'' @ [tab] @ ''1'' @ [tab], None)"
proof -
  have s: "str_int 1 = ''1''" "str_int 12 = ''12''"
    by code_simp+
  have f: "csv_field ''A'' = ''A''" "csv_field ''B'' = ''B''" "csv_field ''square'' = ''square''"
    by (simp_all add: csv_field_def csv_special_def tab_def quotechar_def)
  have c: "count_points [(0,0),(0,2),(2,2),(2,0)] [(1,1),(3,3)] 0 = 1"
    by (simp add: geometry_defs)
  have d1: "distinct (map fst [(''A'', 1::int), (''B'', 12)])"
    and d2: "distinct (map fst [(''square'', [(0,0),(0,2),(2,2),(2::rat,0::rat)])])"
    by simp_all
  note rows = write_rows_serializes_tally [of "[(''A'', 1), (''B'', 12)]"
      "[(''square'', [(0,0),(0,2),(2,2),(2,0)])]" "[(1,1),(3,3)]"]
  have r1: "concat (map (\<lambda>(name, cnt). csv_field name @ [tab] @ str_int cnt @ [tab])
        [(''A'', 1), (''B'', 12)]) = ''A'' @ [tab] @ ''1'' @ [tab] @ ''B'' @ [tab] @ ''12'' @ [tab]"
    by (simp add: s f)
  have r2: "concat (map (\<lambda>(name, poly).
        csv_field name @ [tab] @ str_int (count_points poly [(1,1),(3,3)] 0) @ [tab])
        [(''square'', [(0,0),(0,2),(2,2),(2,0)])]) = ''square'' @ [tab] @ ''1'' @ [tab]"
    by (simp add: s f c del: count_points.simps)
  from rows d1 have w1: "write_rows [(''A'', 1), (''B'', 12)] (map fst [(''A'', 1::int), (''B'', 12)]) =
      (''A'' @ [tab] @ ''1'' @ [tab] @ ''B'' @ [tab] @ ''12'' @ [tab], None)"
    unfolding r1 by (elim conjE) (erule mp)
  from rows d2 have w2: "write_rows (tally_points [(''square'', [(0,0),(0,2),(2,2),(2,0)])] [(1,1),(3,3)])
         (map fst (tally_points [(''square'', [(0,0),(0,2),(2,2),(2,0)])] [(1,1),(3,3)])) =
      (''square'' @ [tab] @ ''1'' @ [tab], None)"
    unfolding r2 by (elim conjE) (erule mp)
  from d1 w1 d2 w2 show ?thesis
    by (intro conjI)
qed

text \<open>
  Claim C10: on every failure of the point acquisition (standard input is a terminal,
  or reading or parsing raises) \<^verbatim>\<open>get_points\<close> returns the integer \<open>-1\<close> as its first
  component together with the flag \<open>-1\<close>; the first component is a list of points
  exactly when the flag is \<open>1\<close>.
\<close>

theorem get_points_failure_value:
  "get_points Tty = ((PInt (- 1), - 1), print_line ''I/O error: no input file name provided.'')
   \<and> (read_points r = Raised \<longrightarrow>
        get_points (Piped r) = ((PInt (- 1), - 1), print_line ''I/O error: no point data acquired.''))
   \<and> (snd (fst (get_points inp)) \<noteq> 1 \<longrightarrow> fst (get_points inp) = (PInt (- 1), - 1))
   \<and> ((\<exists>pts. fst (fst (get_points inp)) = PList pts) = (snd (fst (get_points inp)) = 1))"
  by (auto simp: get_points_def split: stdin.splits outcome.splits)

theorem get_points_failure_value_witness:
  "read_points (Returned [[Num 34, Text ''x''], [Num (- 118), Num 2]]) = Raised
   \<and> get_points (Piped (Returned [[Num 34, Text ''x''], [Num (- 118), Num 2]]))
      = ((PInt (- 1), - 1), print_line ''I/O error: no point data acquired.'')
   \<and> snd (fst (get_points Tty)) \<noteq> 1 \<and> fst (get_points Tty) = (PInt (- 1), - 1)"
  using get_points_failure_value [of "Returned [[Num 34, Text ''x''], [Num (- 118), Num 2]]" Tty]
  by (simp add: read_points_def get_points_def)

end
